theory Spec2Isabelle
  imports Complex_Main
begin

section \<open>Portfolio Visualizer: the valuation and aggregation engine of app.py\<close>

text \<open>
  The development embeds the functions nested in \<open>main\<close> of \<open>app.py\<close> that compute
  the portfolio's value over time. Conventions of the embedding:

  \<^item> A Python float is a rational number (\<open>rat\<close>): arithmetic is exact, rounding error
    and the infinities are outside the model. The missing value NaN of a pandas series
    is \<open>None\<close>, and arithmetic on series propagates it.
  \<^item> A date (a \<open>datetime.date\<close>, or a pandas timestamp normalised to midnight) is its
    day number, an \<open>int\<close>.
  \<^item> A pandas series is the list of its (label, value) pairs in storage order; the
    operations used by the program are defined below as pandas defines them.
  \<^item> Yahoo Finance is a record of functions (\<open>market\<close>): every request is a function
    application, and a request that raises or delivers nothing is \<open>None\<close>. The record
    also holds the clock of the machine, which turns an epoch into a local date.
  \<^item> A string is a list of characters with code points below 256. \<open>strip\<close> removes
    the white space of that range; \<open>upper\<close> is defined on the letters a to z, the
    text of a ticker being ASCII.
  \<^item> An exception is a value of type \<open>error\<close>, returned as \<open>Inl\<close>.
\<close>

subsection \<open>Dates, series and errors\<close>

type_synonym date = int

type_synonym 'v series = "(date \<times> 'v) list"

type_synonym fseries = "rat option series"

datatype error = ValueError string | IndexError | YahooError

definition index :: "'v series \<Rightarrow> date list" where
  "index s = map fst s"

text \<open>\<open>s.dropna()\<close>: the entries whose value is not NaN.\<close>

definition dropna :: "fseries \<Rightarrow> fseries" where
  "dropna s = filter (\<lambda>(d, v). v \<noteq> None) s"

text \<open>The value stored under a label; a label that is absent reads as NaN.\<close>

definition loc :: "fseries \<Rightarrow> date \<Rightarrow> rat option" where
  "loc s d = (case map_of s d of None \<Rightarrow> None | Some v \<Rightarrow> v)"

text \<open>
  \<open>s.reindex(idx)\<close>: the values of \<open>s\<close> at the labels \<open>idx\<close>, NaN where \<open>s\<close> has no
  such label. When the index already is \<open>idx\<close> the series is copied; otherwise pandas
  refuses a series with duplicate labels.
\<close>

definition reindex :: "fseries \<Rightarrow> date list \<Rightarrow> error + fseries" where
  "reindex s idx =
     (if index s = idx then Inr s
      else if distinct (index s) then Inr (map (\<lambda>d. (d, loc s d)) idx)
      else Inl (ValueError ''cannot reindex on an axis with duplicate labels''))"

text \<open>\<open>s.ffill()\<close>: a NaN takes the last value that is not NaN before it, in storage order.\<close>

fun ffill_from :: "rat option \<Rightarrow> fseries \<Rightarrow> fseries" where
  "ffill_from prev [] = []"
| "ffill_from prev ((d, v) # s) =
     (case v of
        None \<Rightarrow> (d, prev) # ffill_from prev s
      | Some x \<Rightarrow> (d, Some x) # ffill_from (Some x) s)"

definition ffill :: "fseries \<Rightarrow> fseries" where
  "ffill s = ffill_from None s"

text \<open>Float multiplication with NaN.\<close>

definition fmul :: "rat option \<Rightarrow> rat option \<Rightarrow> rat option" where
  "fmul x y = (case (x, y) of (Some a, Some b) \<Rightarrow> Some (a * b) | _ \<Rightarrow> None)"

text \<open>
  \<open>a * b\<close> for two series with the same index (the program multiplies the prices with
  the rates reindexed to the prices' index): the product position by position.
\<close>

definition series_mul :: "fseries \<Rightarrow> fseries \<Rightarrow> fseries" where
  "series_mul a b = map (\<lambda>((d, x), (_, y)). (d, fmul x y)) (zip a b)"

text \<open>\<open>s * k\<close> for a float \<open>k\<close>.\<close>

definition series_scale :: "fseries \<Rightarrow> rat \<Rightarrow> fseries" where
  "series_scale s k = map (\<lambda>(d, v). (d, fmul v (Some k))) s"

text \<open>
  \<open>s.loc[d] = v\<close>: every entry labelled \<open>d\<close> takes the value \<open>v\<close>; when there is none,
  the entry is appended.
\<close>

definition set_loc :: "date \<Rightarrow> 'v \<Rightarrow> 'v series \<Rightarrow> 'v series" where
  "set_loc d v s =
     (if d \<in> set (index s) then map (\<lambda>(d', v'). if d' = d then (d', v) else (d', v')) s
      else s @ [(d, v)])"

text \<open>\<open>s.sort_index()\<close>: ascending by label.\<close>

definition sort_index :: "'v series \<Rightarrow> 'v series" where
  "sort_index s = sort_key fst s"

subsection \<open>Holdings\<close>

text \<open>
  An element of the list \<open>assets\<close>: the dictionary built by \<open>on_add_click\<close>. A numeric
  entry is read through \<open>to_float\<close>, which yields the default 0.0 for a value that
  \<open>float\<close> rejects; such a value is \<open>None\<close> here.
\<close>

record holding =
  ticker :: string
  name :: "string option"
  asset_type :: string
  shares :: "rat option"
  price :: "rat option"
  current_price :: "rat option"
  purchase_date :: "date option"
  percentage_gain :: "rat option"
  profit_gain :: "rat option"

definition to_float :: "rat option \<Rightarrow> rat" where
  "to_float v = (case v of Some x \<Rightarrow> x | None \<Rightarrow> 0)"

subsection \<open>Yahoo Finance\<close>

datatype query = Period string | Range date date

record info =
  regularMarketPrice :: "rat option"
  currentPrice :: "rat option"
  previousClose :: "rat option"
  currency :: "string option"
  firstTradeDateEpochUtc :: "int option"
  firstTradeDateEpochUTC :: "int option"
  longName :: "string option"
  quoteType :: "string option"

text \<open>
  \<open>yf_info t\<close> is \<open>yf.Ticker(t).info\<close> (\<open>None\<close>: the request raises);
  \<open>yf_download t q\<close> is the Close column of \<open>yf.download(t, ...)\<close> (\<open>None\<close>: the
  request raises, or the frame is empty or has no Close column);
  \<open>yf_history t\<close> is the Close column of \<open>yf.Ticker(t).history(period="5d")\<close>
  (\<open>None\<close>: the frame is empty or has no Close column);
  \<open>fromtimestamp e\<close> is \<open>datetime.date.fromtimestamp(e)\<close>, the date of the epoch \<open>e\<close>
  in the time zone of the machine (\<open>None\<close>: the call raises, the epoch being out of
  the range of the platform).
\<close>

record market =
  yf_info :: "string \<Rightarrow> info option"
  yf_download :: "string \<Rightarrow> query \<Rightarrow> fseries option"
  yf_history :: "string \<Rightarrow> fseries option"
  fromtimestamp :: "int \<Rightarrow> date option"

definition download_close :: "market \<Rightarrow> string \<Rightarrow> query \<Rightarrow> fseries option" where
  "download_close m t q =
     (case yf_download m t q of
        None \<Rightarrow> None
      | Some hist \<Rightarrow>
          (let close = dropna hist in if close = [] then None else Some close))"

subsection \<open>Currencies\<close>

text \<open>
  The white space that \<open>str.strip()\<close> removes, among the code points below 256: tab to
  carriage return, the four separators, the space, the next line and the no-break space.
\<close>

definition is_space :: "char \<Rightarrow> bool" where
  "is_space c =
     (let n = (of_char c :: nat)
      in (9 \<le> n \<and> n \<le> 13) \<or> (28 \<le> n \<and> n \<le> 32) \<or> n = 133 \<or> n = 160)"

definition strip :: "string \<Rightarrow> string" where
  "strip s = rev (dropWhile is_space (rev (dropWhile is_space s)))"

definition normalize_ccy :: "string option \<Rightarrow> string" where
  "normalize_ccy ccy =
     (case ccy of
        None \<Rightarrow> ''CHF''
      | Some c \<Rightarrow>
          if c = [] then ''CHF''
          else if strip c = ''GBp'' then ''GBP''
          else strip c)"

definition get_ticker_currency :: "market \<Rightarrow> string \<Rightarrow> string" where
  "get_ticker_currency m ticker_symbol =
     (case yf_info m ticker_symbol of
        None \<Rightarrow> ''CHF''
      | Some i \<Rightarrow> normalize_ccy (currency i))"

text \<open>
  \<open>float(s.iloc[-1])\<close>, for a series that \<open>dropna\<close> has cleaned: the last value, and
  an IndexError on the empty series.
\<close>

definition last_value :: "fseries \<Rightarrow> error + rat" where
  "last_value s =
     (case rev s of
        [] \<Rightarrow> Inl IndexError
      | (d, v) # _ \<Rightarrow> Inr (to_float v))"

definition get_fx_rate_to_chf :: "market \<Rightarrow> string \<Rightarrow> error + rat" where
  "get_fx_rate_to_chf m from_ccy =
     (let c = normalize_ccy (Some from_ccy) in
      if c = ''CHF'' then Inr 1
      else
        (case download_close m (c @ ''CHF=X'') (Period ''5d'') of
           None \<Rightarrow> Inl (ValueError (''Could not fetch FX rate for '' @ c @ ''CHF=X''))
         | Some close \<Rightarrow> last_value close))"

definition get_fx_series_to_chf :: "market \<Rightarrow> string \<Rightarrow> date \<Rightarrow> date \<Rightarrow> error + fseries" where
  "get_fx_series_to_chf m from_ccy start_date end_date =
     (let c = normalize_ccy (Some from_ccy) in
      if c = ''CHF'' then Inr (map (\<lambda>d. (d, Some 1)) [start_date..end_date])
      else
        (case download_close m (c @ ''CHF=X'') (Range start_date end_date) of
           None \<Rightarrow> Inl (ValueError (''Could not fetch FX series for '' @ c @ ''CHF=X''))
         | Some fx \<Rightarrow> Inr fx))"

subsection \<open>The value series of one holding\<close>

text \<open>Lines 369 to 375: the prices in CHF.\<close>

definition convert_close :: "market \<Rightarrow> date \<Rightarrow> date \<Rightarrow> string \<Rightarrow> fseries \<Rightarrow> error + fseries" where
  "convert_close m start_date end_date asset_ccy close =
     (if asset_ccy \<noteq> ''CHF'' then
        (case get_fx_series_to_chf m asset_ccy start_date end_date of
           Inl e \<Rightarrow> Inl e
         | Inr fx \<Rightarrow>
             (case reindex fx (index close) of
                Inl e \<Rightarrow> Inl e
              | Inr fx' \<Rightarrow> Inr (series_mul close (ffill fx'))))
      else Inr close)"

text \<open>Lines 379 to 387: the series from the purchase date on, anchored at the purchase.\<close>

definition trim_and_anchor :: "holding \<Rightarrow> rat \<Rightarrow> fseries \<Rightarrow> fseries" where
  "trim_and_anchor a sh v =
     (case purchase_date a of
        None \<Rightarrow> v
      | Some p_ts \<Rightarrow>
          (let v1 = filter (\<lambda>(d, x). p_ts \<le> d) v;
               purchase_price = to_float (price a)
           in if 0 < purchase_price
              then sort_index (set_loc p_ts (Some (sh * purchase_price)) v1)
              else v1))"

text \<open>
  The body of the loop over \<open>assets\<close> (lines 348 to 392): \<open>Inr None\<close> when the holding
  is skipped, \<open>Inr (Some v)\<close> when its series \<open>v\<close> is appended to \<open>series_list\<close>, and
  \<open>Inl e\<close> when the exception \<open>e\<close> leaves the loop.
\<close>

definition holding_series :: "market \<Rightarrow> date \<Rightarrow> date \<Rightarrow> holding \<Rightarrow> error + fseries option" where
  "holding_series m start_date end_date a =
     (if ticker a = [] then Inr None
      else
        (let sh = to_float (shares a) in
         if sh \<le> 0 then Inr None
         else
           (case download_close m (ticker a) (Range start_date end_date) of
              None \<Rightarrow> Inr None
            | Some close \<Rightarrow>
                (case convert_close m start_date end_date
                        (get_ticker_currency m (ticker a)) close of
                   Inl e \<Rightarrow> Inl e
                 | Inr close' \<Rightarrow>
                     (let v = trim_and_anchor a sh (series_scale close' sh)
                      in if v = [] then Inr None else Inr (Some v))))))"

fun collect_series :: "market \<Rightarrow> date \<Rightarrow> date \<Rightarrow> holding list \<Rightarrow> error + fseries list" where
  "collect_series m start_date end_date [] = Inr []"
| "collect_series m start_date end_date (a # assets) =
     (case holding_series m start_date end_date a of
        Inl e \<Rightarrow> Inl e
      | Inr r \<Rightarrow>
          (case collect_series m start_date end_date assets of
             Inl e \<Rightarrow> Inl e
           | Inr series_list \<Rightarrow>
               Inr ((case r of None \<Rightarrow> [] | Some v \<Rightarrow> [v]) @ series_list)))"

subsection \<open>The total series\<close>

text \<open>
  A data frame is the list of its rows: the label and the values of the columns.

  \<open>pd.concat(series_list, axis=1)\<close> first combines the indexes. When they are all
  equal, the combined index is that index as it is. Otherwise it is their sorted
  union, in which a label stands as often as in the index that repeats it most.
\<close>

type_synonym frame = "(date \<times> rat option list) list"

definition union_with_duplicates :: "date list \<Rightarrow> date list \<Rightarrow> date list" where
  "union_with_duplicates l r = l @ fold remove1 l r"

definition combined_index :: "date list list \<Rightarrow> date list" where
  "combined_index indexes =
     (case indexes of
        [] \<Rightarrow> []
      | i # rest \<Rightarrow>
          if list_all (\<lambda>j. j = i) rest then i
          else sort (fold (\<lambda>j acc. union_with_duplicates acc j) indexes []))"

text \<open>
  Every series then becomes a column by \<open>reindex\<close> on the combined index, which raises
  for a series with duplicate labels whose index is not the combined one.
\<close>

fun align_columns :: "date list \<Rightarrow> fseries list \<Rightarrow> error + rat option list list" where
  "align_columns idx [] = Inr []"
| "align_columns idx (s # series_list) =
     (case reindex s idx of
        Inl e \<Rightarrow> Inl e
      | Inr s' \<Rightarrow>
          (case align_columns idx series_list of
             Inl e \<Rightarrow> Inl e
           | Inr cols \<Rightarrow> Inr (map snd s' # cols)))"

text \<open>The rows of a frame, from its index and its columns (each as long as the index).\<close>

fun rows_of :: "date list \<Rightarrow> rat option list list \<Rightarrow> frame" where
  "rows_of [] cols = []"
| "rows_of (d # idx) cols = (d, map hd cols) # rows_of idx (map tl cols)"

text \<open>
  \<open>pd.concat(series_list, axis=1).sort_index()\<close>; rows with the same label keep their
  order.
\<close>

definition concat_sort_index :: "fseries list \<Rightarrow> error + frame" where
  "concat_sort_index series_list =
     (let idx = combined_index (map index series_list) in
      case align_columns idx series_list of
        Inl e \<Rightarrow> Inl e
      | Inr cols \<Rightarrow> Inr (sort_key fst (rows_of idx cols)))"

text \<open>\<open>frame.ffill()\<close>: forward fill down every column.\<close>

fun ffill_rows :: "rat option list \<Rightarrow> frame \<Rightarrow> frame" where
  "ffill_rows prev [] = []"
| "ffill_rows prev ((d, r) # rows) =
     (let r' = map (\<lambda>(p, v). case v of None \<Rightarrow> p | Some x \<Rightarrow> Some x) (zip prev r)
      in (d, r') # ffill_rows r' rows)"

definition frame_ffill :: "nat \<Rightarrow> frame \<Rightarrow> frame" where
  "frame_ffill ncols f = ffill_rows (replicate ncols None) f"

text \<open>\<open>frame.fillna(0).sum(axis=1)\<close>: the sum of each row, NaN counting as 0.\<close>

definition fillna0 :: "rat option \<Rightarrow> rat" where
  "fillna0 v = (case v of None \<Rightarrow> 0 | Some x \<Rightarrow> x)"

definition fillna_sum :: "frame \<Rightarrow> rat series" where
  "fillna_sum f = map (\<lambda>(d, r). (d, sum_list (map fillna0 r))) f"

text \<open>Lines 400 and 401.\<close>

definition combine :: "fseries list \<Rightarrow> error + rat series" where
  "combine series_list =
     (case concat_sort_index series_list of
        Inl e \<Rightarrow> Inl e
      | Inr combined \<Rightarrow> Inr (fillna_sum (frame_ffill (length series_list) combined)))"

text \<open>Lines 405 to 416: the value of the portfolio today, from the stored current prices.\<close>

fun latest_total_loop :: "date \<Rightarrow> holding list \<Rightarrow> rat \<Rightarrow> rat" where
  "latest_total_loop today_ts [] latest_total = latest_total"
| "latest_total_loop today_ts (a # assets) latest_total =
     (let sh = to_float (shares a) in
      if sh \<le> 0 then latest_total_loop today_ts assets latest_total
      else if (case purchase_date a of None \<Rightarrow> False | Some pdate \<Rightarrow> today_ts < pdate)
      then latest_total_loop today_ts assets latest_total
      else latest_total_loop today_ts assets (latest_total + sh * to_float (current_price a)))"

text \<open>Lines 403 to 419.\<close>

definition add_today :: "date \<Rightarrow> holding list \<Rightarrow> rat series \<Rightarrow> rat series" where
  "add_today today_ts assets tot =
     (if tot \<noteq> [] \<and> Max (set (index tot)) < today_ts
      then sort_index (set_loc today_ts (latest_total_loop today_ts assets 0) tot)
      else tot)"

text \<open>
  Lines 399 to 419, from the list of the holdings' series to the total series.
\<close>

definition total_of_series :: "date \<Rightarrow> holding list \<Rightarrow> fseries list \<Rightarrow> error + rat series" where
  "total_of_series today_ts assets series_list =
     (case combine series_list of
        Inl e \<Rightarrow> Inl e
      | Inr tot \<Rightarrow> Inr (add_today today_ts assets tot))"

subsection \<open>Summary\<close>

text \<open>Lines 429 to 440; the state of the loop is \<open>(total_cost, total_current)\<close>.\<close>

fun summary_loop :: "holding list \<Rightarrow> rat \<times> rat \<Rightarrow> rat \<times> rat" where
  "summary_loop [] acc = acc"
| "summary_loop (a # assets) (total_cost, total_current) =
     (let sh = to_float (shares a) in
      if sh \<le> 0 then summary_loop assets (total_cost, total_current)
      else summary_loop assets
             (total_cost + sh * to_float (price a),
              total_current + sh * to_float (current_price a)))"

record summary =
  total_cost :: rat
  total_current :: rat
  total_profit :: rat
  total_pct :: rat

definition summarize :: "holding list \<Rightarrow> summary" where
  "summarize assets =
     (let (cost, cur) = summary_loop assets (0, 0);
          profit = cur - cost
      in \<lparr>total_cost = cost, total_current = cur, total_profit = profit,
          total_pct = (if 0 < cost then profit / cost else 0)\<rparr>)"

subsection \<open>Chart data\<close>

text \<open>Lines 458 to 468: the range of the y axis, for the values of a total series.\<close>

definition y_range :: "rat list \<Rightarrow> rat \<times> rat" where
  "y_range vals =
     (let min_val = Min (set vals);
          max_val = Max (set vals);
          rng_val = max_val - min_val
      in if \<bar>rng_val\<bar> < 1 / 10 ^ 9 then (min_val - 1, max_val + 1)
         else (let pad = (5 / 100) * rng_val in (min_val - pad, max_val + pad)))"

text \<open>
  The format \<open>{v:,.2f}\<close>: two decimals, rounded half to even, the integer part in
  groups of three digits.
\<close>

definition round_half_even :: "rat \<Rightarrow> int" where
  "round_half_even x =
     (let f = \<lfloor>x\<rfloor>; r = x - of_int f
      in if r < 1 / 2 then f else if 1 / 2 < r then f + 1
         else if even f then f else f + 1)"

fun digits :: "nat \<Rightarrow> string" where
  "digits n =
     (if n < 10 then [''0123456789'' ! n]
      else digits (n div 10) @ [''0123456789'' ! (n mod 10)])"

declare digits.simps [simp del]

fun commas_rev :: "string \<Rightarrow> string" where
  "commas_rev (a # b # c # d # r) = a # b # c # CHR '','' # commas_rev (d # r)"
| "commas_rev r = r"

definition format_comma_2f :: "rat \<Rightarrow> string" where
  "format_comma_2f v =
     (let cents = nat (round_half_even (\<bar>v\<bar> * 100))
      in (if v < 0 then ''-'' else [])
         @ rev (commas_rev (rev (digits (cents div 100))))
         @ ''.'' @ [''0123456789'' ! (cents mod 100 div 10), ''0123456789'' ! (cents mod 10)])"

text \<open>Lines 498 to 510: the values of the ticks of the y axis, top first, and their labels.\<close>

definition y_tick_values :: "rat \<Rightarrow> rat \<Rightarrow> rat list" where
  "y_tick_values min_y max_y =
     (let y_ticks = 8 :: nat;
          rng = max_y - min_y;
          step = (if 0 < rng then rng / of_nat y_ticks else 1)
      in map (\<lambda>i. min_y + of_nat i * step) (rev [0..<y_ticks + 1]))"

definition y_axis_labels :: "rat \<Rightarrow> rat \<Rightarrow> string list" where
  "y_axis_labels min_y max_y = map (\<lambda>v. ''CHF '' @ format_comma_2f v) (y_tick_values min_y max_y)"

text \<open>
  Lines 512 to 543: the dates of the labels of the x axis (the program prints them as
  day/month/year); the list of dates is not empty.
\<close>

definition x_label_dates :: "date list \<Rightarrow> date list" where
  "x_label_dates dates =
     (if length dates \<le> 1 then [hd dates]
      else
        (let total_days = last dates - hd dates
         in map (\<lambda>i. hd dates + round_half_even (of_int (total_days * int i) / 7)) [0..<8]))"

record chart =
  total_series :: "rat series"
  total_worth_value_text :: string
  chart_summary :: summary
  data_points :: "(nat \<times> rat) list"
  min_x :: nat
  max_x :: nat
  min_y :: rat
  max_y :: rat
  y_axis_labels_col :: "string list"
  x_axis_labels_row :: "date list"

text \<open>Lines 425 to 543, for a total series that is not empty.\<close>

definition build_chart :: "holding list \<Rightarrow> rat series \<Rightarrow> chart" where
  "build_chart assets tot =
     (let vals = map snd tot;
          n = length tot;
          (lo, hi) = y_range vals
      in \<lparr>total_series = tot,
          total_worth_value_text = ''CHF '' @ format_comma_2f (last vals),
          chart_summary = summarize assets,
          data_points = zip [0..<n] vals,
          min_x = 0,
          max_x = max 1 (n - 1),
          min_y = lo,
          max_y = hi,
          y_axis_labels_col = y_axis_labels lo hi,
          x_axis_labels_row = x_label_dates (index tot)\<rparr>)"

datatype outcome = Reset | Chart chart

text \<open>
  \<open>update_total_worth_graph\<close>, for the list \<open>assets\<close> and the date of today:
  \<open>Reset\<close> where the program calls \<open>reset_total_worth\<close> and returns.
\<close>

definition update_total_worth_graph :: "market \<Rightarrow> date \<Rightarrow> holding list \<Rightarrow> error + outcome" where
  "update_total_worth_graph m today assets =
     (if assets = [] then Inr Reset
      else
        (let purchase_dates = List.map_filter purchase_date assets;
             start_date = (if purchase_dates \<noteq> [] then Min (set purchase_dates) else today - 365);
             end_date = today + 1
         in case collect_series m start_date end_date assets of
              Inl e \<Rightarrow> Inl e
            | Inr series_list \<Rightarrow>
                if series_list = [] then Inr Reset
                else
                  (case total_of_series today assets series_list of
                     Inl e \<Rightarrow> Inl e
                   | Inr tot \<Rightarrow> if tot = [] then Inr Reset else Inr (Chart (build_chart assets tot)))))"

subsection \<open>Adding and deleting holdings\<close>

text \<open>The Python \<open>x or y\<close> on optional floats: \<open>None\<close> and 0.0 are false.\<close>

definition py_or :: "rat option \<Rightarrow> rat option \<Rightarrow> rat option" where
  "py_or x y = (case x of None \<Rightarrow> y | Some v \<Rightarrow> if v = 0 then y else Some v)"

definition get_current_price :: "market \<Rightarrow> string \<Rightarrow> error + rat" where
  "get_current_price m ticker_symbol =
     (case yf_info m ticker_symbol of
        None \<Rightarrow> Inl YahooError
      | Some i \<Rightarrow>
          (let quoted = py_or (py_or (regularMarketPrice i) (currentPrice i)) (previousClose i);
               found =
                 (case quoted of
                    Some p \<Rightarrow> Inr (Some p)
                  | None \<Rightarrow>
                      (case yf_history m ticker_symbol of
                         None \<Rightarrow> Inr None
                       | Some hist \<Rightarrow>
                           (case last_value (dropna hist) of
                              Inl e \<Rightarrow> Inl e
                            | Inr p \<Rightarrow> Inr (Some p))))
           in case found of
                Inl e \<Rightarrow> Inl e
              | Inr None \<Rightarrow>
                  Inl (ValueError (''No price data available for ticker '' @ ticker_symbol))
              | Inr (Some p) \<Rightarrow>
                  (let ccy = normalize_ccy (currency i);
                       p' = (if ccy = ''GBP'' \<and> currency i = Some ''GBp'' then p / 100 else p)
                   in case get_fx_rate_to_chf m ccy of
                        Inl e \<Rightarrow> Inl e
                      | Inr fx \<Rightarrow> Inr (p' * fx))))"

definition first_trade_epoch :: "info \<Rightarrow> int option" where
  "first_trade_epoch i =
     (case firstTradeDateEpochUtc i of
        None \<Rightarrow> firstTradeDateEpochUTC i
      | Some e \<Rightarrow> if e = 0 then firstTradeDateEpochUTC i else Some e)"

definition first_download_date :: "market \<Rightarrow> string \<Rightarrow> date option" where
  "first_download_date m ticker_symbol =
     (case download_close m ticker_symbol (Period ''max'') of
        None \<Rightarrow> None
      | Some close \<Rightarrow> Some (Min (set (index close))))"

text \<open>
  \<open>get_first_price_date\<close>: the date of the first trade, from the epoch of the ticker's
  info; where the info or the epoch is missing, or the conversion of the epoch raises,
  the first date of the whole price history.
\<close>

definition get_first_price_date :: "market \<Rightarrow> string \<Rightarrow> date option" where
  "get_first_price_date m ticker_symbol =
     (case (case yf_info m ticker_symbol of None \<Rightarrow> None | Some i \<Rightarrow> first_trade_epoch i) of
        None \<Rightarrow> first_download_date m ticker_symbol
      | Some epoch \<Rightarrow>
          if epoch \<noteq> 0 then
            (case fromtimestamp m epoch of
               None \<Rightarrow> first_download_date m ticker_symbol
             | Some first_dt \<Rightarrow> Some first_dt)
          else first_download_date m ticker_symbol)"

definition get_ticker_name :: "market \<Rightarrow> string \<Rightarrow> string option" where
  "get_ticker_name m t = (case yf_info m t of None \<Rightarrow> None | Some i \<Rightarrow> longName i)"

definition get_asset_type :: "market \<Rightarrow> string \<Rightarrow> string" where
  "get_asset_type m t =
     (case yf_info m t of
        None \<Rightarrow> ''Unknown''
      | Some i \<Rightarrow>
          if quoteType i = Some ''EQUITY'' then ''Stock''
          else if quoteType i = Some ''ETF'' then ''ETF''
          else if quoteType i = Some ''MUTUALFUND'' then ''Fund''
          else if quoteType i = Some ''CRYPTOCURRENCY'' then ''Crypto''
          else if quoteType i = Some ''INDEX'' then ''Index''
          else ''Other'')"

text \<open>
  The dialog of \<open>add_asset\<close>. The text of a numeric field is kept as what \<open>float\<close>
  makes of it (\<open>None\<close>: \<open>float\<close> rejects the text, and \<open>to_float\<close> yields 0.0).
\<close>

record form =
  ticker_field :: string
  shares_field :: "rat option"
  price_field :: "rat option"
  selected_purchase_date :: "date option"

text \<open>\<open>s.upper()\<close> on the letters a to z.\<close>

definition upper :: "string \<Rightarrow> string" where
  "upper s =
     map (\<lambda>c. case map_of (zip ''abcdefghijklmnopqrstuvwxyz'' ''ABCDEFGHIJKLMNOPQRSTUVWXYZ'') c of
                None \<Rightarrow> c
              | Some u \<Rightarrow> u) s"

definition validate_fields :: "form \<Rightarrow> bool" where
  "validate_fields f =
     (let ticker_ok = (strip (ticker_field f) \<noteq> []);
          shares_ok = (0 < to_float (shares_field f));
          price_ok = (0 < to_float (price_field f));
          date_ok = (selected_purchase_date f \<noteq> None)
      in ticker_ok \<and> shares_ok \<and> price_ok \<and> date_ok)"

text \<open>The dictionary that \<open>on_add_click\<close> appends (without the printed purchase date).\<close>

definition new_holding :: "market \<Rightarrow> string \<Rightarrow> rat \<Rightarrow> rat \<Rightarrow> rat \<Rightarrow> date \<Rightarrow> holding" where
  "new_holding m t sh pr cp pd =
     \<lparr>ticker = t, name = get_ticker_name m t, asset_type = get_asset_type m t,
      shares = Some sh, price = Some pr, current_price = Some cp, purchase_date = Some pd,
      percentage_gain = Some ((cp - pr) / pr), profit_gain = Some (sh * (cp - pr))\<rparr>"

text \<open>The functions through which \<open>on_add_click\<close> asks Yahoo Finance for data.\<close>

datatype request =
  Get_current_price string | Get_first_price_date string
| Get_ticker_name string | Get_asset_type string

datatype add_result =
  Added | Fields_required | Dialog_invalid_date | Dialog_invalid_input | Dialog_invalid_ticker

text \<open>
  \<open>on_add_click\<close>, up to the call of \<open>refresh_assets\<close> that ends it: the list \<open>assets\<close>
  afterwards, the requests for data in the order they were made, and how the click ended.
\<close>

definition on_add_click ::
  "market \<Rightarrow> date \<Rightarrow> form \<Rightarrow> holding list \<Rightarrow> holding list \<times> request list \<times> add_result" where
  "on_add_click m today f assets =
     (if \<not> validate_fields f then (assets, [], Fields_required)
      else
        (let t = upper (strip (ticker_field f)) in
         case selected_purchase_date f of
           None \<Rightarrow> (assets, [], Dialog_invalid_date)
         | Some pd \<Rightarrow>
             if today < pd then (assets, [], Dialog_invalid_date)
             else
               (let sh = to_float (shares_field f); pr = to_float (price_field f) in
                if sh \<le> 0 \<or> pr \<le> 0 then (assets, [], Dialog_invalid_input)
                else
                  (case get_current_price m t of
                     Inl e \<Rightarrow> (assets, [Get_current_price t], Dialog_invalid_ticker)
                   | Inr cp \<Rightarrow>
                       (case get_first_price_date m t of
                          Some first_dt \<Rightarrow>
                            if pd < first_dt
                            then (assets, [Get_current_price t, Get_first_price_date t],
                                  Dialog_invalid_date)
                            else (assets @ [new_holding m t sh pr cp pd],
                                  [Get_current_price t, Get_first_price_date t,
                                   Get_ticker_name t, Get_asset_type t], Added)
                        | None \<Rightarrow>
                            (assets @ [new_holding m t sh pr cp pd],
                             [Get_current_price t, Get_first_price_date t,
                              Get_ticker_name t, Get_asset_type t], Added))))))"

text \<open>\<open>delete_asset\<close>, up to the call of \<open>refresh_assets\<close> that ends it.\<close>

fun first_match :: "string \<Rightarrow> holding list \<Rightarrow> nat \<Rightarrow> nat option" where
  "first_match t [] i = None"
| "first_match t (a # assets) i = (if ticker a = t then Some i else first_match t assets (Suc i))"

definition pop :: "nat \<Rightarrow> 'a list \<Rightarrow> 'a list" where
  "pop i xs = take i xs @ drop (Suc i) xs"

definition delete_asset :: "string \<Rightarrow> holding list \<Rightarrow> holding list" where
  "delete_asset t assets =
     (case first_match t assets 0 of None \<Rightarrow> assets | Some i \<Rightarrow> pop i assets)"

subsection \<open>Example data\<close>

definition holding_of :: "string \<Rightarrow> rat \<Rightarrow> rat \<Rightarrow> rat \<Rightarrow> date \<Rightarrow> holding" where
  "holding_of t sh pr cp pd =
     \<lparr>ticker = t, name = None, asset_type = ''Stock'',
      shares = Some sh, price = Some pr, current_price = Some cp, purchase_date = Some pd,
      percentage_gain = Some ((cp - pr) / pr), profit_gain = Some (sh * (cp - pr))\<rparr>"

definition info_of :: "rat \<Rightarrow> string \<Rightarrow> int \<Rightarrow> info" where
  "info_of p ccy epoch =
     \<lparr>regularMarketPrice = Some p, currentPrice = None, previousClose = None,
      currency = Some ccy, firstTradeDateEpochUtc = Some epoch, firstTradeDateEpochUTC = None,
      longName = None, quoteType = Some ''EQUITY''\<rparr>"

text \<open>
  A share quoted in US dollars, first traded on day 10, with closes on the days 10, 11
  and 12, where the dollar has a rate on day 12 only. The clock is that of a machine
  on universal time, and day 0 is 1 January 1970.
\<close>

definition usd_market :: market where
  "usd_market =
     \<lparr>yf_info = (\<lambda>t. if t = ''ACME'' then Some (info_of 7 ''USD'' 864000) else None),
      yf_download = (\<lambda>t q.
         if t = ''ACME'' then Some [(10, Some 5), (11, Some 6), (12, Some 7)]
         else if t = ''USDCHF=X'' then Some [(12, Some 2)]
         else None),
      yf_history = (\<lambda>t. None),
      fromtimestamp = (\<lambda>e. Some (e div 86400))\<rparr>"

text \<open>
  A share quoted in pence (the code \<open>GBp\<close>) at 250 pence, where a pound is 11/10 francs.
\<close>

definition gbp_market :: market where
  "gbp_market =
     \<lparr>yf_info = (\<lambda>t. if t = ''VOD.L'' then Some (info_of 250 ''GBp'' 864000) else None),
      yf_download = (\<lambda>t q.
         if t = ''VOD.L'' then Some [(10, Some 250), (11, Some 250)]
         else if t = ''GBPCHF=X'' then Some [(10, Some (11 / 10)), (11, Some (11 / 10))]
         else None),
      yf_history = (\<lambda>t. None),
      fromtimestamp = (\<lambda>e. Some (e div 86400))\<rparr>"

text \<open>
  A share quoted in francs whose downloaded closes repeat day 11.
\<close>

definition dup_market :: market where
  "dup_market =
     \<lparr>yf_info = (\<lambda>t. if t = ''DUP'' then Some (info_of 7 ''CHF'' 864000) else None),
      yf_download = (\<lambda>t q.
         if t = ''DUP'' then Some [(10, Some 5), (11, Some 6), (11, Some 7)] else None),
      yf_history = (\<lambda>t. None),
      fromtimestamp = (\<lambda>e. Some (e div 86400))\<rparr>"

section \<open>Properties\<close>

subsection \<open>Deleting a holding\<close>

lemma first_match_none:
  "\<forall>b\<in>set xs. ticker b \<noteq> t \<Longrightarrow> first_match t xs i = None"
  by (induction xs arbitrary: i) auto

lemma first_match_some:
  "\<forall>b\<in>set pre. ticker b \<noteq> t \<Longrightarrow> ticker a = t \<Longrightarrow>
   first_match t (pre @ a # post) i = Some (i + length pre)"
  by (induction pre arbitrary: i) auto

text \<open>
  Claim C10. \<open>delete_asset\<close> removes the first holding, in list order, whose ticker is
  the argument, and nothing else: the holdings before it and after it (also a later
  one with the same ticker) stay as they are, in their order. When no holding has the
  ticker, the list stays as it is.
\<close>

theorem delete_asset_removes_first_match:
  "((\<forall>b\<in>set pre. ticker b \<noteq> t) \<and> ticker a = t \<longrightarrow>
      delete_asset t (pre @ a # post) = pre @ post) \<and>
   ((\<forall>b\<in>set assets. ticker b \<noteq> t) \<longrightarrow> delete_asset t assets = assets)"
  by (simp add: delete_asset_def first_match_none first_match_some pop_def)

theorem delete_asset_removes_first_match_witness:
  "delete_asset ''A''
     [holding_of ''B'' 1 1 1 0, holding_of ''A'' 1 1 1 0, holding_of ''C'' 1 1 1 0,
      holding_of ''A'' 2 2 2 0]
   = [holding_of ''B'' 1 1 1 0, holding_of ''C'' 1 1 1 0, holding_of ''A'' 2 2 2 0] \<and>
   delete_asset ''Z'' [holding_of ''B'' 1 1 1 0, holding_of ''A'' 1 1 1 0]
   = [holding_of ''B'' 1 1 1 0, holding_of ''A'' 1 1 1 0]"
  using delete_asset_removes_first_match
    [of "[holding_of ''B'' 1 1 1 0]" "''A''" "holding_of ''A'' 1 1 1 0"
        "[holding_of ''C'' 1 1 1 0, holding_of ''A'' 2 2 2 0]"
        "[holding_of ''B'' 1 1 1 0, holding_of ''A'' 1 1 1 0]"]
    delete_asset_removes_first_match
    [of "[]" "''Z''" "holding_of ''Z'' 1 1 1 0" "[]"
        "[holding_of ''B'' 1 1 1 0, holding_of ''A'' 1 1 1 0]"]
  by (simp add: holding_of_def)

subsection \<open>The range of the y axis\<close>

text \<open>
  Claim C7. For a total series that is not empty, the chart's y range is the least
  value minus a pad to the greatest value plus the pad, where the pad is 5 percent of
  the difference of the two, and 1 when the difference is below 1e-9. The values
  100, 100, 100 give the range 99 to 101, and the values 100, 200 give 95 to 205.
\<close>

theorem chart_y_range:
  "(tot \<noteq> [] \<longrightarrow>
      (let c = build_chart assets tot;
           lo = Min (snd ` set tot); hi = Max (snd ` set tot);
           pad = (if \<bar>hi - lo\<bar> < 1 / 10 ^ 9 then 1 else (5 / 100) * (hi - lo))
       in min_y c = lo - pad \<and> max_y c = hi + pad)) \<and>
   y_range [100, 100, 100] = (99, 101) \<and>
   y_range [100, 200] = (95, 205)"
  by (simp add: build_chart_def y_range_def Let_def split: prod.splits)

theorem chart_y_range_witness:
  "min_y (build_chart [] [(1, 100), (2, 200), (5, 150)]) = 95 \<and>
   max_y (build_chart [] [(1, 100), (2, 200), (5, 150)]) = 205"
  using chart_y_range [of "[(1, 100), (2, 200), (5, 150)]" "[]"]
  by (simp add: Let_def)

subsection \<open>The labels of the y axis\<close>

lemma y_range_strict:
  assumes "vals \<noteq> []"
  shows "fst (y_range vals) < snd (y_range vals)"
proof -
  define lo where "lo = Min (set vals)"
  define hi where "hi = Max (set vals)"
  have le: "lo \<le> hi"
    using assms by (simp add: lo_def hi_def Min_le_iff)
  show ?thesis
  proof (cases "\<bar>hi - lo\<bar> < 1 / 10 ^ 9")
    case True
    then show ?thesis
      using le by (simp add: y_range_def Let_def lo_def [symmetric] hi_def [symmetric])
  next
    case False
    have "(0::rat) < 1 / 10 ^ 9"
      by simp
    with False have pos: "0 < hi - lo"
      using le by linarith
    have p2: "0 < (5 / 100) * (hi - lo)"
      using pos by simp
    have "lo - (5 / 100) * (hi - lo) < hi + (5 / 100) * (hi - lo)"
      using pos p2 by (simp add: field_simps)
    then show ?thesis
      using False by (simp add: y_range_def Let_def lo_def [symmetric] hi_def [symmetric])
  qed
qed

lemma y_tick_values_desc:
  "lo < hi \<Longrightarrow>
   y_tick_values lo hi = map (\<lambda>i. hi - of_nat i * ((hi - lo) / 8)) [0..<9]"
  by (simp add: y_tick_values_def Let_def upt_rec field_simps)

text \<open>
  Claim C3, as the program has it. For a total series that is not empty, the column of
  the y axis holds nine labels, not eight: the ticks go from \<open>max_y\<close> at the top down to
  \<open>min_y\<close> at the bottom in eight equal steps of \<open>(max_y - min_y) / 8\<close>, and each label
  is \<open>CHF\<close>, a space, and the tick's value with two decimals and thousands separators.
\<close>

theorem y_axis_nine_ticks:
  "tot \<noteq> [] \<longrightarrow>
     (let c = build_chart assets tot; step = (max_y c - min_y c) / 8
      in y_axis_labels_col c
           = map (\<lambda>i. ''CHF '' @ format_comma_2f (max_y c - of_nat i * step)) [0..<9] \<and>
         length (y_axis_labels_col c) = 9 \<and>
         0 < step \<and>
         max_y c - 8 * step = min_y c)"
proof
  assume ne: "tot \<noteq> []"
  obtain lo hi where r: "y_range (map snd tot) = (lo, hi)"
    by (cases "y_range (map snd tot)")
  have lt: "lo < hi"
    using y_range_strict [of "map snd tot"] ne r by simp
  have ticks: "y_axis_labels lo hi
      = map (\<lambda>i. ''CHF '' @ format_comma_2f (hi - of_nat i * ((hi - lo) / 8))) [0..<9]"
    unfolding y_axis_labels_def y_tick_values_desc [OF lt] by (simp add: comp_def)
  have len: "length (y_axis_labels lo hi) = 9"
    unfolding ticks by simp
  show "let c = build_chart assets tot; step = (max_y c - min_y c) / 8
      in y_axis_labels_col c
           = map (\<lambda>i. ''CHF '' @ format_comma_2f (max_y c - of_nat i * step)) [0..<9] \<and>
         length (y_axis_labels_col c) = 9 \<and>
         0 < step \<and>
         max_y c - 8 * step = min_y c"
  proof -
    have arith: "0 < (hi - lo) / 8" "hi - 8 * ((hi - lo) / 8) = lo"
      using lt by (simp_all add: field_simps)
    show ?thesis
      using ticks len arith by (simp add: build_chart_def Let_def r)
  qed
qed


text \<open>The two cases of \<open>digits\<close>, for evaluating it on a numeral.\<close>

lemma digits_small: "n < 10 \<Longrightarrow> digits n = [''0123456789'' ! n]"
  by (simp add: digits.simps)

lemma digits_large:
  "\<not> n < 10 \<Longrightarrow> digits n = digits (n div 10) @ [''0123456789'' ! (n mod 10)]"
  by (subst digits.simps) simp

lemma example_y_range: "y_range (map snd [(1::int, 100::rat), (2, 200)]) = (95, 205)"
  by (simp add: y_range_def)

lemma example_labels:
  "y_axis_labels 95 205
     = [''CHF 205.00'', ''CHF 191.25'', ''CHF 177.50'', ''CHF 163.75'', ''CHF 150.00'',
        ''CHF 136.25'', ''CHF 122.50'', ''CHF 108.75'', ''CHF 95.00'']"
  by (simp add: y_axis_labels_def y_tick_values_def
      format_comma_2f_def round_half_even_def digits_small digits_large upt_rec Let_def)

text \<open>
  The values 100 and 200 give the range 95 to 205, and the column then holds the nine
  labels below: the program counts from 0 to \<open>y_ticks\<close>, both included.
\<close>

theorem y_axis_eight_ticks_counterexample:
  "y_axis_labels_col (build_chart [] [(1, 100), (2, 200)])
     = [''CHF 205.00'', ''CHF 191.25'', ''CHF 177.50'', ''CHF 163.75'', ''CHF 150.00'',
        ''CHF 136.25'', ''CHF 122.50'', ''CHF 108.75'', ''CHF 95.00''] \<and>
   length (y_axis_labels_col (build_chart [] [(1, 100), (2, 200)])) \<noteq> 8"
  using example_y_range example_labels by (simp add: build_chart_def)

theorem y_axis_nine_ticks_witness:
  "length (y_axis_labels_col (build_chart [] [(1, 100), (2, 200)])) = 9 \<and>
   max_y (build_chart [] [(1, 100), (2, 200)]) - 8 * (55 / 4)
     = min_y (build_chart [] [(1, 100), (2, 200)])"
  using y_axis_nine_ticks [of "[(1, 100), (2, 200)]" "[]"] example_y_range
  by (simp add: Let_def build_chart_def)

subsection \<open>Holdings without shares\<close>

lemma summary_loop_skip:
  "to_float (shares a) \<le> 0 \<Longrightarrow>
   summary_loop (xs @ a # ys) acc = summary_loop (xs @ ys) acc"
proof (induction xs arbitrary: acc)
  case Nil
  then show ?case by (cases acc) simp
next
  case (Cons x xs)
  then show ?case by (cases acc) (simp add: Let_def)
qed

lemma holding_series_skip:
  "to_float (shares a) \<le> 0 \<Longrightarrow> holding_series m s e a = Inr None"
  by (simp add: holding_series_def Let_def)

lemma collect_series_skip:
  "holding_series m s e a = Inr None \<Longrightarrow>
   collect_series m s e (xs @ a # ys) = collect_series m s e (xs @ ys)"
  by (induction xs) (simp_all split: sum.splits)

text \<open>
  Claim C9. A holding whose shares, read through \<open>to_float\<close>, are not positive yields
  no value series: the loop skips it before any download, so the list of series is
  the one built without it (for the same window of dates). It adds nothing to the
  summary either: cost, current value, profit and percentage are those of the list
  without it.
\<close>

theorem nonpositive_shares_excluded:
  "to_float (shares a) \<le> 0 \<longrightarrow>
     holding_series m s e a = Inr None \<and>
     collect_series m s e (xs @ a # ys) = collect_series m s e (xs @ ys) \<and>
     summarize (xs @ a # ys) = summarize (xs @ ys)"
  by (simp add: holding_series_skip collect_series_skip summary_loop_skip summarize_def)

theorem nonpositive_shares_excluded_witness:
  "holding_series usd_market 10 13 (holding_of ''ACME'' 0 3 7 10) = Inr None \<and>
   collect_series usd_market 10 13 [holding_of ''ACME'' 0 3 7 10] = Inr [] \<and>
   summarize [holding_of ''ACME'' (- 2) 3 7 10, holding_of ''ACME'' 2 3 7 10]
     = \<lparr>total_cost = 6, total_current = 14, total_profit = 8, total_pct = 4 / 3\<rparr>"
  using nonpositive_shares_excluded
      [of "holding_of ''ACME'' 0 3 7 10" usd_market 10 13 "[]" "[]"]
    nonpositive_shares_excluded
      [of "holding_of ''ACME'' (- 2) 3 7 10" usd_market 10 13 "[]" "[holding_of ''ACME'' 2 3 7 10]"]
  by (simp add: holding_of_def to_float_def summarize_def)

subsection \<open>The dates of the total series and the entry for today\<close>

lemma index_ffill_rows: "map fst (ffill_rows prev f) = map fst f"
  by (induction prev f rule: ffill_rows.induct) (simp_all add: Let_def)

lemma index_fillna_sum: "index (fillna_sum f) = map fst f"
  by (simp add: index_def fillna_sum_def comp_def case_prod_unfold)

lemma fold_remove1_distinct:
  "distinct r \<Longrightarrow> distinct (fold remove1 l r) \<and> set (fold remove1 l r) = set r - set l"
  by (induction l arbitrary: r) auto

lemma union_with_duplicates_distinct:
  assumes "distinct l" and "distinct r"
  shows "distinct (union_with_duplicates l r)"
    and "set (union_with_duplicates l r) = set l \<union> set r"
  using assms fold_remove1_distinct [of r l]
  by (auto simp: union_with_duplicates_def)

lemma fold_union_distinct:
  "list_all distinct indexes \<Longrightarrow> distinct acc \<Longrightarrow>
   distinct (fold (\<lambda>j acc. union_with_duplicates acc j) indexes acc) \<and>
   set (fold (\<lambda>j acc. union_with_duplicates acc j) indexes acc)
     = set acc \<union> set (concat indexes)"
proof (induction indexes arbitrary: acc)
  case Nil
  then show ?case by simp
next
  case (Cons i indexes)
  have d: "distinct (union_with_duplicates acc i)"
    and s: "set (union_with_duplicates acc i) = set acc \<union> set i"
    using Cons.prems union_with_duplicates_distinct [of acc i] by simp_all
  show ?case
    using Cons.IH [of "union_with_duplicates acc i"] Cons.prems(1) d s by auto
qed

lemma combined_index_distinct:
  assumes "list_all distinct indexes"
  shows "distinct (combined_index indexes)"
    and "set (combined_index indexes) = set (concat indexes)"
proof -
  have "distinct (combined_index indexes) \<and>
      set (combined_index indexes) = set (concat indexes)"
  proof (cases indexes)
    case Nil
    then show ?thesis by (simp add: combined_index_def)
  next
    case (Cons i rest)
    show ?thesis
    proof (cases "list_all (\<lambda>j. j = i) rest")
      case True
      then have "set (concat rest) \<subseteq> set i"
        by (auto simp: list_all_iff)
      then show ?thesis
        using True Cons assms by (auto simp: combined_index_def)
    next
      case False
      then show ?thesis
        using Cons assms fold_union_distinct [of indexes "[]"]
        by (simp add: combined_index_def)
    qed
  qed
  then show "distinct (combined_index indexes)"
    and "set (combined_index indexes) = set (concat indexes)"
    by simp_all
qed

lemma align_columns_distinct:
  "list_all (\<lambda>s. distinct (index s)) series_list \<Longrightarrow>
   \<exists>cols. align_columns idx series_list = Inr cols"
  by (induction series_list) (auto simp: reindex_def)

lemma index_rows_of: "map fst (rows_of idx cols) = idx"
  by (induction idx arbitrary: cols) simp_all

lemma index_concat_sort_index:
  assumes "list_all (\<lambda>s. distinct (index s)) series_list"
  shows "\<exists>f. concat_sort_index series_list = Inr f \<and>
       map fst f = sort (remdups (concat (map index series_list)))"
proof -
  define idx where "idx = combined_index (map index series_list)"
  have all: "list_all distinct (map index series_list)"
    using assms by (simp add: list_all_iff)
  have d: "distinct idx" and s: "set idx = set (concat (map index series_list))"
    unfolding idx_def using combined_index_distinct [OF all] by simp_all
  obtain cols where c: "align_columns idx series_list = Inr cols"
    using align_columns_distinct [OF assms] by blast
  define f where "f = sort_key fst (rows_of idx cols)"
  have f: "concat_sort_index series_list = Inr f"
    by (simp add: concat_sort_index_def idx_def [symmetric] c f_def)
  have "sorted (map fst f)"
    by (simp add: f_def)
  moreover have "distinct (map fst f)"
  proof -
    have "distinct (map fst (rows_of idx cols))"
      using d by (simp add: index_rows_of)
    then show ?thesis
      by (simp add: f_def distinct_map)
  qed
  moreover have "set (map fst f) = set (sort (remdups (concat (map index series_list))))"
  proof -
    have "set (map fst f) = set (map fst (rows_of idx cols))"
      by (simp add: f_def)
    also have "\<dots> = set idx"
      by (simp only: index_rows_of)
    also have "\<dots> = set (sort (remdups (concat (map index series_list))))"
      using s by simp
    finally show ?thesis .
  qed
  ultimately have "map fst f = sort (remdups (concat (map index series_list)))"
    by (intro sorted_distinct_set_unique) simp_all
  then show ?thesis
    using f by blast
qed

lemma sorted_concat_sort_index:
  "concat_sort_index series_list = Inr f \<Longrightarrow> sorted (map fst f)"
  by (auto simp: concat_sort_index_def Let_def split: sum.splits)

lemma index_combine:
  "list_all (\<lambda>s. distinct (index s)) series_list \<Longrightarrow>
   \<exists>tot. combine series_list = Inr tot \<and>
       index tot = sort (remdups (concat (map index series_list)))"
  using index_concat_sort_index [of series_list]
  by (auto simp: combine_def index_fillna_sum frame_ffill_def index_ffill_rows)

lemma sorted_combine:
  "combine series_list = Inr tot \<Longrightarrow> sorted (index tot)"
  by (auto simp: combine_def index_fillna_sum frame_ffill_def index_ffill_rows
      sorted_concat_sort_index split: sum.splits)

text \<open>The definitions that evaluate \<open>combine\<close> on a given list of series.\<close>

lemmas combine_eval =
  combine_def concat_sort_index_def combined_index_def union_with_duplicates_def reindex_def
  index_def loc_def frame_ffill_def fillna_sum_def fillna0_def Let_def

lemma latest_total_loop_sum:
  "latest_total_loop today assets acc =
     acc + (\<Sum>a\<leftarrow>filter (\<lambda>a. 0 < to_float (shares a) \<and>
                  (case purchase_date a of None \<Rightarrow> True | Some pdate \<Rightarrow> pdate \<le> today)) assets.
              to_float (shares a) * to_float (current_price a))"
  by (induction assets arbitrary: acc) (auto simp: Let_def split: option.splits)

lemma set_loc_new: "d \<notin> set (index s) \<Longrightarrow> set_loc d v s = s @ [(d, v)]"
  by (simp add: set_loc_def)

lemma before_today:
  assumes "tot \<noteq> []" and "Max (set (index tot)) < today"
  shows "\<forall>d\<in>set (index tot). d < today"
  using assms by (simp add: index_def)

lemma add_today_append:
  assumes "tot \<noteq> []" and "Max (set (index tot)) < today" and "sorted (index tot)"
  shows "add_today today assets tot = tot @ [(today, latest_total_loop today assets 0)]"
proof -
  have lt: "\<forall>d\<in>set (index tot). d < today"
    using before_today [OF assms(1,2)] .
  then have new: "today \<notin> set (index tot)"
    by auto
  have "sorted (map fst (tot @ [(today, latest_total_loop today assets 0)]))"
    using assms(3) lt by (auto simp: index_def sorted_append)
  then show ?thesis
    using assms(1,2) new
    by (simp add: add_today_def set_loc_new sort_index_def sort_key_id_if_sorted)
qed


text \<open>
  Claim C5. When the latest date of the combined series is before today, the total
  series is the combined series followed by one entry for today, so that it stays
  ascending. The value of that entry is the sum of shares times the stored current
  price over the holdings with positive shares whose purchase date is not after today
  (a holding without a purchase date counts as well).
\<close>

theorem today_snapshot_appended:
  "combine series_list = Inr tot \<and> tot \<noteq> [] \<and> Max (set (index tot)) < today \<longrightarrow>
     total_of_series today assets series_list =
       Inr (tot @ [(today,
          \<Sum>a\<leftarrow>filter (\<lambda>a. 0 < to_float (shares a) \<and>
                  (case purchase_date a of None \<Rightarrow> True | Some pdate \<Rightarrow> pdate \<le> today)) assets.
              to_float (shares a) * to_float (current_price a))])"
proof
  assume a: "combine series_list = Inr tot \<and> tot \<noteq> [] \<and> Max (set (index tot)) < today"
  then have "add_today today assets tot = tot @ [(today, latest_total_loop today assets 0)]"
    using add_today_append [of tot today assets] sorted_combine [of series_list tot] by blast
  then show "total_of_series today assets series_list =
       Inr (tot @ [(today,
          \<Sum>a\<leftarrow>filter (\<lambda>a. 0 < to_float (shares a) \<and>
                  (case purchase_date a of None \<Rightarrow> True | Some pdate \<Rightarrow> pdate \<le> today)) assets.
              to_float (shares a) * to_float (current_price a))])"
    using a by (simp add: total_of_series_def latest_total_loop_sum)
qed

theorem today_snapshot_appended_witness:
  "total_of_series 5
     [holding_of ''A'' 2 3 7 1, holding_of ''B'' 0 3 9 1, holding_of ''C'' 1 1 5 9]
     [[(1, Some 10), (2, Some 12)]]
   = Inr [(1, 10), (2, 12), (5, 14)]"
proof -
  have c: "combine [[(1, Some 10), (2, Some 12)]] = Inr [(1, 10), (2, 12)]"
    by (simp add: combine_eval)
  show ?thesis
    using today_snapshot_appended
      [of "[[(1, Some 10), (2, Some 12)]]" "[(1, 10), (2, 12)]" 5
          "[holding_of ''A'' 2 3 7 1, holding_of ''B'' 0 3 9 1, holding_of ''C'' 1 1 5 9]"] c
    by (simp add: index_def holding_of_def to_float_def)
qed

text \<open>
  Claim C8, as the program has it. For every list of value series in which each series
  has its dates distinct, the total series exists and its dates are strictly
  ascending, with the entry for today when it is added. (A series repeats a date when
  the downloaded prices do: \<open>download_close\<close> removes no duplicates.)
\<close>

theorem total_series_strictly_ascending:
  "list_all (\<lambda>s. distinct (index s)) series_list \<longrightarrow>
     (\<exists>tot. total_of_series today assets series_list = Inr tot \<and> sorted_wrt (<) (index tot))"
proof
  assume "list_all (\<lambda>s. distinct (index s)) series_list"
  then obtain tot where c: "combine series_list = Inr tot"
    and i: "index tot = sort (remdups (concat (map index series_list)))"
    using index_combine by blast
  have strict: "sorted_wrt (<) (index tot)"
    unfolding i by (simp add: strict_sorted_iff)
  show "\<exists>tot. total_of_series today assets series_list = Inr tot \<and> sorted_wrt (<) (index tot)"
  proof (cases "tot \<noteq> [] \<and> Max (set (index tot)) < today")
    case True
    then have lt: "\<forall>d\<in>set (index tot). d < today"
      using before_today by blast
    have "add_today today assets tot = tot @ [(today, latest_total_loop today assets 0)]"
      using True strict add_today_append [of tot today assets]
      by (simp add: strict_sorted_iff)
    then have "sorted_wrt (<) (index (add_today today assets tot))"
      using strict lt by (simp add: index_def sorted_wrt_append)
    then show ?thesis
      by (simp add: total_of_series_def c)
  next
    case False
    then have "add_today today assets tot = tot"
      by (auto simp: add_today_def)
    then show ?thesis
      using strict by (simp add: total_of_series_def c)
  qed
qed

text \<open>
  A share whose downloaded closes repeat day 11, bought on day 10: the value series and
  the total series charted on day 11 hold day 11 twice.
\<close>

theorem total_series_repeated_date_counterexample:
  "holding_series dup_market 10 12 (holding_of ''DUP'' 1 4 7 10)
     = Inr (Some [(10, Some 4), (11, Some 6), (11, Some 7)]) \<and>
   (case update_total_worth_graph dup_market 11 [holding_of ''DUP'' 1 4 7 10] of
      Inr (Chart c) \<Rightarrow> total_series c
    | _ \<Rightarrow> [])
     = [(10, 4), (11, 6), (11, 7)] \<and>
   \<not> sorted_wrt (<) (index [(10 :: int, 4 :: rat), (11, 6), (11, 7)])"
proof -
  have hs: "holding_series dup_market 10 12 (holding_of ''DUP'' 1 4 7 10)
     = Inr (Some [(10, Some 4), (11, Some 6), (11, Some 7)])"
    by (simp add: holding_series_def holding_of_def to_float_def download_close_def
        dup_market_def dropna_def get_ticker_currency_def info_of_def normalize_ccy_def
        strip_def is_space_def convert_close_def trim_and_anchor_def series_scale_def
        fmul_def set_loc_def index_def sort_index_def)
  have w: "List.map_filter purchase_date [holding_of ''DUP'' 1 4 7 10] = [10]"
    by (simp add: List.map_filter_def holding_of_def)
  have t: "total_of_series 11 [holding_of ''DUP'' 1 4 7 10]
      [[(10, Some 4), (11, Some 6), (11, Some 7)]] = Inr [(10, 4), (11, 6), (11, 7)]"
    by (simp add: total_of_series_def combine_eval add_today_def)
  have "update_total_worth_graph dup_market 11 [holding_of ''DUP'' 1 4 7 10]
      = Inr (Chart (build_chart [holding_of ''DUP'' 1 4 7 10] [(10, 4), (11, 6), (11, 7)]))"
    unfolding update_total_worth_graph_def w using hs t by (simp add: Let_def)
  then have u: "(case update_total_worth_graph dup_market 11 [holding_of ''DUP'' 1 4 7 10] of
      Inr (Chart c) \<Rightarrow> total_series c
    | _ \<Rightarrow> [])
     = [(10, 4), (11, 6), (11, 7)]"
    by (simp add: build_chart_def split: prod.splits)
  show ?thesis
    using hs u by (simp add: index_def)
qed

theorem total_series_strictly_ascending_witness:
  "total_of_series 5 [holding_of ''A'' 2 3 7 1]
     [[(1, Some 10), (3, Some 12)], [(3, Some 6), (2, Some 5)]]
   = Inr [(1, 10), (2, 15), (3, 18), (5, 14)] \<and>
   sorted_wrt (<) (index [(1 :: int, 10 :: rat), (2, 15), (3, 18), (5, 14)])"
  using total_series_strictly_ascending
    [of "[[(1, Some 10), (3, Some 12)], [(3, Some 6), (2, Some 5)]]" 5 "[holding_of ''A'' 2 3 7 1]"]
  by (simp add: total_of_series_def combine_eval add_today_def set_loc_def sort_index_def
      holding_of_def to_float_def)

text \<open>The dates of a holding's series are those of its prices, trimmed and anchored.\<close>

lemma index_series_mul:
  "length b = length a \<Longrightarrow> index (series_mul a b) = index a"
  by (induction a b rule: list_induct2') (auto simp: series_mul_def index_def)

lemma length_ffill_from: "length (ffill_from prev s) = length s"
  by (induction prev s rule: ffill_from.induct) (simp_all split: option.splits)

lemma index_reindex: "reindex s idx = Inr s' \<Longrightarrow> index s' = idx"
  by (auto simp: reindex_def index_def comp_def split: if_splits)

lemma index_convert_close:
  assumes "convert_close m s e ccy close = Inr close'"
  shows "index close' = index close"
proof (cases "ccy = ''CHF''")
  case True
  then show ?thesis
    using assms by (simp add: convert_close_def)
next
  case False
  then obtain fx fx' where r: "reindex fx (index close) = Inr fx'"
    and c: "close' = series_mul close (ffill fx')"
    using assms by (auto simp: convert_close_def split: sum.splits)
  have "length (index fx') = length (index close)"
    using index_reindex [OF r] by simp
  then have "length (ffill fx') = length close"
    by (simp add: ffill_def length_ffill_from index_def)
  then show ?thesis
    unfolding c by (rule index_series_mul)
qed

lemma index_set_loc:
  "index (set_loc d v s) = (if d \<in> set (index s) then index s else index s @ [d])"
proof -
  have "map fst (map (\<lambda>(d', v'). if d' = d then (d', v) else (d', v')) s) = map fst s"
    by (induction s) auto
  then show ?thesis
    by (simp add: set_loc_def index_def)
qed

lemma distinct_set_loc: "distinct (index s) \<Longrightarrow> distinct (index (set_loc d v s))"
  by (simp add: index_set_loc)

lemma distinct_sort_index: "distinct (index s) \<Longrightarrow> distinct (index (sort_index s))"
  by (simp add: index_def sort_index_def distinct_map)

lemma distinct_trim_and_anchor:
  assumes "distinct (index v)"
  shows "distinct (index (trim_and_anchor a sh v))"
proof (cases "purchase_date a")
  case None
  then show ?thesis
    using assms by (simp add: trim_and_anchor_def)
next
  case (Some p)
  define v1 where "v1 = filter (\<lambda>(d, x). p \<le> d) v"
  have d1: "distinct (index v1)"
    using assms by (simp add: v1_def index_def distinct_map_filter)
  then have "distinct (index (sort_index (set_loc p (Some (sh * to_float (price a))) v1)))"
    by (intro distinct_sort_index distinct_set_loc)
  then show ?thesis
    using d1 Some by (simp add: trim_and_anchor_def Let_def v1_def [symmetric])
qed

text \<open>
  The hypothesis of distinct dates holds for the series that the loop builds whenever
  the downloaded prices of the holding have distinct dates.
\<close>

lemma holding_series_distinct:
  assumes "holding_series m s e a = Inr (Some v)"
    and "\<And>close. yf_download m (ticker a) (Range s e) = Some close \<Longrightarrow> distinct (index close)"
  shows "distinct (index v)"
proof -
  obtain close close' where dl: "download_close m (ticker a) (Range s e) = Some close"
    and cc: "convert_close m s e (get_ticker_currency m (ticker a)) close = Inr close'"
    and v: "v = trim_and_anchor a (to_float (shares a)) (series_scale close' (to_float (shares a)))"
    using assms(1)
    by (auto simp: holding_series_def Let_def split: if_splits option.splits sum.splits)
  obtain hist where h: "yf_download m (ticker a) (Range s e) = Some hist" and c: "close = dropna hist"
    using dl by (auto simp: download_close_def Let_def split: option.splits if_splits)
  have "distinct (index close)"
    using assms(2) [OF h] c by (simp add: dropna_def index_def distinct_map_filter)
  then have "distinct (index close')"
    using index_convert_close [OF cc] by simp
  then have "distinct (index (series_scale close' (to_float (shares a))))"
    by (simp add: series_scale_def index_def comp_def case_prod_unfold)
  then show ?thesis
    unfolding v by (rule distinct_trim_and_anchor)
qed

subsection \<open>The anchor at the purchase date\<close>

lemma set_set_loc:
  "set (set_loc d v s) = {(d', x). (d', x) \<in> set s \<and> d' \<noteq> d} \<union> {(d, v)}"
proof (cases "d \<in> set (index s)")
  case True
  then obtain x where "(d, x) \<in> set s"
    by (auto simp: index_def)
  then show ?thesis
    using True by (force simp: set_loc_def image_iff split: if_splits)
next
  case False
  then show ?thesis
    by (auto simp: set_loc_def index_def image_iff)
qed

lemma set_sort_index: "set (sort_index s) = set s"
  by (simp add: sort_index_def)

lemma sorted_sort_index: "sorted (index (sort_index s))"
  by (simp add: sort_index_def index_def)

lemma set_trim_and_anchor:
  assumes "purchase_date a = Some p" and "0 < to_float (price a)"
  shows "set (trim_and_anchor a sh v) =
           {(d, x). (d, x) \<in> set v \<and> p < d} \<union> {(p, Some (sh * to_float (price a)))}"
    and "sorted (index (trim_and_anchor a sh v))"
    and "trim_and_anchor a sh v \<noteq> []"
proof -
  have eq: "trim_and_anchor a sh v =
      sort_index (set_loc p (Some (sh * to_float (price a))) (filter (\<lambda>(d, x). p \<le> d) v))"
    using assms by (simp add: trim_and_anchor_def Let_def)
  show s: "set (trim_and_anchor a sh v) =
           {(d, x). (d, x) \<in> set v \<and> p < d} \<union> {(p, Some (sh * to_float (price a)))}"
    unfolding eq set_sort_index set_set_loc by auto
  show "sorted (index (trim_and_anchor a sh v))"
    unfolding eq by (rule sorted_sort_index)
  show "trim_and_anchor a sh v \<noteq> []"
    using s by auto
qed

text \<open>
  Claim C1. For a holding with a ticker, positive shares, a positive purchase price
  and a purchase date, whose prices were downloaded and converted to CHF, the loop
  appends a value series. Its entry at the purchase date is shares times purchase
  price, whatever the market data say for that date and also when they have no such
  date; its other entries are those of the market series after the purchase date; and
  it is sorted by date.
\<close>

theorem purchase_date_anchor:
  "ticker a \<noteq> [] \<and> 0 < to_float (shares a) \<and> 0 < to_float (price a) \<and>
   purchase_date a = Some p \<and>
   download_close m (ticker a) (Range s e) = Some close \<and>
   convert_close m s e (get_ticker_currency m (ticker a)) close = Inr close' \<longrightarrow>
     (\<exists>v. holding_series m s e a = Inr (Some v) \<and>
          set v = {(d, x). (d, x) \<in> set (series_scale close' (to_float (shares a))) \<and> p < d}
                    \<union> {(p, Some (to_float (shares a) * to_float (price a)))} \<and>
          sorted (index v))"
proof
  assume h: "ticker a \<noteq> [] \<and> 0 < to_float (shares a) \<and> 0 < to_float (price a) \<and>
   purchase_date a = Some p \<and>
   download_close m (ticker a) (Range s e) = Some close \<and>
   convert_close m s e (get_ticker_currency m (ticker a)) close = Inr close'"
  define v where "v = trim_and_anchor a (to_float (shares a)) (series_scale close' (to_float (shares a)))"
  have ne: "v \<noteq> []"
    unfolding v_def using h set_trim_and_anchor(3) by blast
  have hs: "holding_series m s e a = Inr (Some v)"
    using h ne by (simp add: holding_series_def Let_def v_def [symmetric])
  show "\<exists>v. holding_series m s e a = Inr (Some v) \<and>
          set v = {(d, x). (d, x) \<in> set (series_scale close' (to_float (shares a))) \<and> p < d}
                    \<union> {(p, Some (to_float (shares a) * to_float (price a)))} \<and>
          sorted (index v)"
    using hs h set_trim_and_anchor(1,2) [of a p] unfolding v_def by blast
qed

text \<open>The share in dollars of the example: its prices, and their conversion to CHF.\<close>

lemma example_usd_series:
  "download_close usd_market ''ACME'' (Range 10 13) = Some [(10, Some 5), (11, Some 6), (12, Some 7)]"
  "get_ticker_currency usd_market ''ACME'' = ''USD''"
  "convert_close usd_market 10 13 ''USD'' [(10, Some 5), (11, Some 6), (12, Some 7)]
     = Inr [(10, None), (11, None), (12, Some 14)]"
  by (simp_all add: download_close_def usd_market_def dropna_def get_ticker_currency_def
      info_of_def normalize_ccy_def strip_def is_space_def convert_close_def
      get_fx_series_to_chf_def reindex_def index_def loc_def ffill_def series_mul_def fmul_def)

theorem purchase_date_anchor_witness:
  "holding_series usd_market 10 13 (holding_of ''ACME'' 2 3 7 11)
     = Inr (Some [(11, Some 6), (12, Some 28)])"
  using purchase_date_anchor
    [of "holding_of ''ACME'' 2 3 7 11" 11 usd_market 10 13
        "[(10, Some 5), (11, Some 6), (12, Some 7)]" "[(10, None), (11, None), (12, Some 14)]"]
    example_usd_series
  by (simp add: holding_of_def to_float_def holding_series_def trim_and_anchor_def
      series_scale_def fmul_def set_loc_def index_def sort_index_def)

subsection \<open>Dates without an exchange rate\<close>

lemma loc_absent: "d \<notin> set (index s) \<Longrightarrow> loc s d = None"
proof -
  assume "d \<notin> set (index s)"
  then have "map_of s d = None"
    by (simp add: index_def map_of_eq_None_iff)
  then show ?thesis
    by (simp add: loc_def)
qed

lemma series_mul_Cons:
  "series_mul ((d, x) # a) ((d', y) # b) = (d, fmul x y) # series_mul a b"
  by (simp add: series_mul_def)

lemma fmul_None: "fmul x None = None" "fmul None y = None"
  by (simp_all add: fmul_def split: option.splits)

lemma nan_before_first_rate:
  "sorted (map fst close) \<Longrightarrow> d \<in> set (map fst close) \<Longrightarrow>
   \<forall>d'\<le>d. loc fx d' = None \<Longrightarrow>
   (d, None) \<in> set (series_mul close (ffill_from None (map (\<lambda>d. (d, loc fx d)) (map fst close))))"
proof (induction close)
  case Nil
  then show ?case by simp
next
  case (Cons c close)
  obtain d0 x0 where c: "c = (d0, x0)"
    by (cases c)
  have le: "d0 \<le> d"
    using Cons.prems(1,2) c by auto
  then have none: "loc fx d0 = None"
    using Cons.prems(3) by simp
  show ?case
  proof (cases "d0 = d")
    case True
    then show ?thesis
      using none c by (simp add: series_mul_Cons fmul_None)
  next
    case False
    then have "d \<in> set (map fst close)"
      using Cons.prems(2) c by simp
    then have "(d, None) \<in> set (series_mul close
        (ffill_from None (map (\<lambda>d. (d, loc fx d)) (map fst close))))"
      using Cons.IH Cons.prems(1,3) by simp
    then show ?thesis
      using none c by (simp add: series_mul_Cons)
  qed
qed

lemma convert_close_nan:
  assumes "ccy \<noteq> ''CHF''"
    and "get_fx_series_to_chf m ccy s e = Inr fx"
    and "distinct (index fx)"
    and "sorted (index close)"
    and "d \<in> set (index close)"
    and "\<forall>d'\<in>set (index fx). d < d'"
  shows "\<exists>close'. convert_close m s e ccy close = Inr close' \<and> (d, None) \<in> set close'"
proof -
  have "d \<notin> set (index fx)"
    using assms(6) by auto
  then have neq: "index fx \<noteq> index close"
    using assms(5) by auto
  have re: "reindex fx (index close) = Inr (map (\<lambda>d. (d, loc fx d)) (index close))"
    using neq assms(3) by (simp add: reindex_def)
  have "\<forall>d'\<le>d. loc fx d' = None"
    using assms(6) by (auto intro!: loc_absent)
  then have "(d, None) \<in> set (series_mul close
      (ffill_from None (map (\<lambda>d. (d, loc fx d)) (map fst close))))"
    using nan_before_first_rate assms(4,5) by (simp add: index_def)
  then show ?thesis
    using assms(1,2) re by (simp add: convert_close_def ffill_def index_def)
qed

lemma trim_and_anchor_keeps:
  assumes "(d, x) \<in> set v"
    and "case purchase_date a of None \<Rightarrow> True | Some p \<Rightarrow> p < d"
  shows "(d, x) \<in> set (trim_and_anchor a sh v)"
proof (cases "purchase_date a")
  case None
  then show ?thesis
    using assms by (simp add: trim_and_anchor_def)
next
  case (Some p)
  then have "p < d"
    using assms(2) by simp
  then show ?thesis
    using assms(1) Some
    by (auto simp: trim_and_anchor_def Let_def set_sort_index set_set_loc)
qed

lemma index_total_of_series:
  assumes "list_all (\<lambda>s. distinct (index s)) series_list"
  shows "\<exists>tot. total_of_series today assets series_list = Inr tot \<and>
      set (concat (map index series_list)) \<subseteq> set (index tot)"
proof -
  obtain tot where c: "combine series_list = Inr tot"
    and i: "index tot = sort (remdups (concat (map index series_list)))"
    using index_combine [OF assms] by blast
  have "set (index tot) \<subseteq> set (index (add_today today assets tot))"
    by (auto simp: add_today_def set_sort_index set_set_loc index_def image_iff)
  then show ?thesis
    using c i by (auto simp: total_of_series_def)
qed

text \<open>
  Claim C4, as the program has it. For a holding in a currency other than CHF, take a
  date of its (ascending) price series that is after the purchase date and before
  every date of the rates. The date is not dropped: the holding's value series keeps
  it with the value NaN, and it is a date of the total series built from any list of
  series (with distinct dates) that holds this one.
\<close>

theorem date_without_rate_kept:
  "ticker a \<noteq> [] \<and> 0 < to_float (shares a) \<and>
   (case purchase_date a of None \<Rightarrow> True | Some p \<Rightarrow> p < d) \<and>
   download_close m (ticker a) (Range s e) = Some close \<and>
   sorted (index close) \<and> d \<in> set (index close) \<and>
   get_ticker_currency m (ticker a) \<noteq> ''CHF'' \<and>
   get_fx_series_to_chf m (get_ticker_currency m (ticker a)) s e = Inr fx \<and>
   distinct (index fx) \<and> (\<forall>d'\<in>set (index fx). d < d') \<longrightarrow>
     (\<exists>v. holding_series m s e a = Inr (Some v) \<and> (d, None) \<in> set v \<and>
          (\<forall>series_list today assets.
              v \<in> set series_list \<and> list_all (\<lambda>s. distinct (index s)) series_list \<longrightarrow>
              (\<exists>tot. total_of_series today assets series_list = Inr tot \<and>
                     d \<in> set (index tot))))"
proof
  assume h: "ticker a \<noteq> [] \<and> 0 < to_float (shares a) \<and>
   (case purchase_date a of None \<Rightarrow> True | Some p \<Rightarrow> p < d) \<and>
   download_close m (ticker a) (Range s e) = Some close \<and>
   sorted (index close) \<and> d \<in> set (index close) \<and>
   get_ticker_currency m (ticker a) \<noteq> ''CHF'' \<and>
   get_fx_series_to_chf m (get_ticker_currency m (ticker a)) s e = Inr fx \<and>
   distinct (index fx) \<and> (\<forall>d'\<in>set (index fx). d < d')"
  then obtain close' where cc: "convert_close m s e (get_ticker_currency m (ticker a)) close = Inr close'"
    and nan: "(d, None) \<in> set close'"
    using convert_close_nan [of "get_ticker_currency m (ticker a)" m s e fx close d] by blast
  define v where "v = trim_and_anchor a (to_float (shares a)) (series_scale close' (to_float (shares a)))"
  have "(d, None) \<in> set (series_scale close' (to_float (shares a)))"
    using nan by (force simp: series_scale_def fmul_None)
  then have inv: "(d, None) \<in> set v"
    unfolding v_def using h trim_and_anchor_keeps by blast
  then have ne: "v \<noteq> []"
    by auto
  have hs: "holding_series m s e a = Inr (Some v)"
    using h cc ne by (simp add: holding_series_def Let_def v_def [symmetric])
  have tot: "\<exists>tot. total_of_series today assets series_list = Inr tot \<and> d \<in> set (index tot)"
    if "v \<in> set series_list \<and> list_all (\<lambda>s. distinct (index s)) series_list"
    for series_list today assets
  proof -
    have "d \<in> set (concat (map index series_list))"
      using that inv by (force simp: index_def)
    then show ?thesis
      using index_total_of_series [of series_list today assets] that by blast
  qed
  show "\<exists>v. holding_series m s e a = Inr (Some v) \<and> (d, None) \<in> set v \<and>
          (\<forall>series_list today assets.
              v \<in> set series_list \<and> list_all (\<lambda>s. distinct (index s)) series_list \<longrightarrow>
              (\<exists>tot. total_of_series today assets series_list = Inr tot \<and>
                     d \<in> set (index tot)))"
    using hs inv tot by blast
qed


text \<open>
  A share in dollars bought on day 10, with prices on the days 10, 11 and 12 and a rate
  on day 12 only: day 11 is in the value series, as NaN, and in the total series, where
  the forward fill gives it the value of the purchase.
\<close>

theorem date_without_rate_dropped_counterexample:
  "holding_series usd_market 10 13 (holding_of ''ACME'' 1 4 7 10)
     = Inr (Some [(10, Some 4), (11, None), (12, Some 14)]) \<and>
   (case update_total_worth_graph usd_market 12 [holding_of ''ACME'' 1 4 7 10] of
      Inr (Chart c) \<Rightarrow> total_series c
    | _ \<Rightarrow> [])
     = [(10, 4), (11, 4), (12, 14)]"
proof -
  have hs: "holding_series usd_market 10 13 (holding_of ''ACME'' 1 4 7 10)
     = Inr (Some [(10, Some 4), (11, None), (12, Some 14)])"
    using example_usd_series
    by (simp add: holding_of_def to_float_def holding_series_def trim_and_anchor_def
        series_scale_def fmul_def set_loc_def index_def sort_index_def)
  have w: "List.map_filter purchase_date [holding_of ''ACME'' 1 4 7 10] = [10]"
    by (simp add: List.map_filter_def holding_of_def)
  have t: "total_of_series 12 [holding_of ''ACME'' 1 4 7 10]
      [[(10, Some 4), (11, None), (12, Some 14)]] = Inr [(10, 4), (11, 4), (12, 14)]"
    by (simp add: total_of_series_def combine_eval add_today_def)
  have "update_total_worth_graph usd_market 12 [holding_of ''ACME'' 1 4 7 10]
      = Inr (Chart (build_chart [holding_of ''ACME'' 1 4 7 10] [(10, 4), (11, 4), (12, 14)]))"
    unfolding update_total_worth_graph_def w using hs t by (simp add: Let_def)
  then have u: "(case update_total_worth_graph usd_market 12 [holding_of ''ACME'' 1 4 7 10] of
      Inr (Chart c) \<Rightarrow> total_series c
    | _ \<Rightarrow> [])
     = [(10, 4), (11, 4), (12, 14)]"
    by (simp add: build_chart_def split: prod.splits)
  show ?thesis
    using hs u by simp
qed

theorem date_without_rate_kept_witness:
  "holding_series usd_market 10 13 (holding_of ''ACME'' 2 3 7 10)
     = Inr (Some [(10, Some 6), (11, None), (12, Some 28)]) \<and>
   (\<exists>tot. total_of_series 12 []
            [[(10, Some 6), (11, None), (12, Some 28)], [(9, Some 1)]] = Inr tot \<and>
          11 \<in> set (index tot))"
proof -
  have hs: "holding_series usd_market 10 13 (holding_of ''ACME'' 2 3 7 10)
     = Inr (Some [(10, Some 6), (11, None), (12, Some 28)])"
    using example_usd_series
    by (simp add: holding_of_def to_float_def holding_series_def trim_and_anchor_def
        series_scale_def fmul_def set_loc_def index_def sort_index_def)
  have fx: "get_fx_series_to_chf usd_market ''USD'' 10 13 = Inr [(12, Some 2)]"
    by (simp add: get_fx_series_to_chf_def normalize_ccy_def strip_def is_space_def
        download_close_def usd_market_def dropna_def)
  have "\<forall>series_list today assets.
      [(10, Some 6), (11, None), (12, Some 28)] \<in> set series_list \<and>
      list_all (\<lambda>s. distinct (index s)) series_list \<longrightarrow>
      (\<exists>tot. total_of_series today assets series_list = Inr tot \<and> 11 \<in> set (index tot))"
    using date_without_rate_kept
      [of "holding_of ''ACME'' 2 3 7 10" 11 usd_market 10 13
          "[(10, Some 5), (11, Some 6), (12, Some 7)]" "[(12, Some 2)]"]
      example_usd_series(1,2) fx hs
    by (simp add: holding_of_def to_float_def index_def)
  then have "\<exists>tot. total_of_series 12 []
            [[(10, Some 6), (11, None), (12, Some 28)], [(9, Some 1)]] = Inr tot \<and>
          11 \<in> set (index tot)"
    by (simp add: index_def)
  then show ?thesis
    using hs by simp
qed

subsection \<open>Prices quoted in pence\<close>

text \<open>
  Claim C2. \<open>get_current_price\<close> divides a price quoted in \<open>GBp\<close> by 100 before the
  conversion to CHF: 250 pence at 11/10 francs a pound are 11/4 francs. The loop of
  \<open>update_total_worth_graph\<close> reads the currency through \<open>get_ticker_currency\<close>,
  which yields the normalised code only, and does not divide: the close of 250 pence
  on day 11 enters the value series of one share as 275 francs.
\<close>

theorem pence_close_not_scaled:
  "get_current_price gbp_market ''VOD.L'' = Inr (11 / 4) \<and>
   holding_series gbp_market 10 12 (holding_of ''VOD.L'' 1 (11 / 4) (11 / 4) 10)
     = Inr (Some [(10, Some (11 / 4)), (11, Some 275)])"
proof -
  have n: "normalize_ccy (Some ''GBp'') = ''GBP''" "normalize_ccy (Some ''GBP'') = ''GBP''"
    by (simp_all add: normalize_ccy_def strip_def is_space_def)
  have d: "download_close gbp_market ''GBPCHF=X'' q = Some [(10, Some (11 / 10)), (11, Some (11 / 10))]"
    "download_close gbp_market ''VOD.L'' q = Some [(10, Some 250), (11, Some 250)]" for q
    by (simp_all add: download_close_def gbp_market_def dropna_def del: not_None_eq)
  have p: "get_current_price gbp_market ''VOD.L'' = Inr (11 / 4)"
    by (simp add: get_current_price_def gbp_market_def info_of_def py_or_def n
        get_fx_rate_to_chf_def d [unfolded gbp_market_def] last_value_def to_float_def)
  have c: "get_ticker_currency gbp_market ''VOD.L'' = ''GBP''"
    by (simp add: get_ticker_currency_def gbp_market_def info_of_def n)
  have s: "holding_series gbp_market 10 12 (holding_of ''VOD.L'' 1 (11 / 4) (11 / 4) 10)
     = Inr (Some [(10, Some (11 / 4)), (11, Some 275)])"
    by (simp add: holding_series_def holding_of_def to_float_def d c convert_close_def
        get_fx_series_to_chf_def n reindex_def index_def ffill_def series_mul_def fmul_def
        series_scale_def trim_and_anchor_def set_loc_def sort_index_def)
  show ?thesis
    using p s by simp
qed

subsection \<open>Rejections of the add dialog\<close>

text \<open>
  Claim C6, as the program has it. When the shares or the price are not positive, or
  the purchase date is in the future, \<open>on_add_click\<close> leaves the list of holdings as
  it is and has asked for no data. When the purchase date is before the first price
  date of the ticker, the list stays as it is as well, but the rejection comes after
  the requests for the current price and for the first price date: with valid fields
  and a current price, exactly these two requests were made.
\<close>

theorem add_click_rejections:
  "((to_float (shares_field f) \<le> 0 \<or> to_float (price_field f) \<le> 0 \<or>
     (\<exists>pd. selected_purchase_date f = Some pd \<and> today < pd)) \<longrightarrow>
      fst (on_add_click m today f assets) = assets \<and>
      fst (snd (on_add_click m today f assets)) = []) \<and>
   ((\<exists>pd first_dt. selected_purchase_date f = Some pd \<and>
        get_first_price_date m (upper (strip (ticker_field f))) = Some first_dt \<and>
        pd < first_dt) \<longrightarrow>
      fst (on_add_click m today f assets) = assets) \<and>
   (validate_fields f \<and> selected_purchase_date f = Some pd \<and> pd \<le> today \<and>
    get_current_price m (upper (strip (ticker_field f))) = Inr cp \<and>
    get_first_price_date m (upper (strip (ticker_field f))) = Some first_dt \<and>
    pd < first_dt \<longrightarrow>
      on_add_click m today f assets =
        (assets,
         [Get_current_price (upper (strip (ticker_field f))),
          Get_first_price_date (upper (strip (ticker_field f)))],
         Dialog_invalid_date))"
  by (auto simp: on_add_click_def validate_fields_def Let_def
      split: option.splits sum.splits)

text \<open>
  A purchase on day 5 of a share first traded on day 10: the click is rejected after two
  requests for data.
\<close>

theorem add_click_early_rejection_counterexample:
  "on_add_click usd_market 12
     \<lparr>ticker_field = ''acme'', shares_field = Some 1, price_field = Some 1,
      selected_purchase_date = Some 5\<rparr> []
   = ([], [Get_current_price ''ACME'', Get_first_price_date ''ACME''], Dialog_invalid_date)"
proof -
  have t: "upper (strip ''acme'') = ''ACME''" "strip ''acme'' \<noteq> []"
    by (simp_all add: upper_def strip_def is_space_def)
  have p: "get_current_price usd_market ''ACME'' = Inr 14"
    by (simp add: get_current_price_def usd_market_def info_of_def py_or_def
        normalize_ccy_def strip_def is_space_def get_fx_rate_to_chf_def download_close_def
        dropna_def last_value_def to_float_def)
  have fd: "get_first_price_date usd_market ''ACME'' = Some 10"
    by (simp add: get_first_price_date_def usd_market_def info_of_def first_trade_epoch_def)
  show ?thesis
    by (simp add: on_add_click_def validate_fields_def to_float_def t p fd Let_def)
qed

theorem add_click_rejections_witness:
  "on_add_click usd_market 12
     \<lparr>ticker_field = ''acme'', shares_field = Some 0, price_field = Some 1,
      selected_purchase_date = Some 11\<rparr> [holding_of ''B'' 1 1 1 0]
     = ([holding_of ''B'' 1 1 1 0], [], Fields_required) \<and>
   on_add_click usd_market 12
     \<lparr>ticker_field = '' acme'', shares_field = Some 2, price_field = Some 1,
      selected_purchase_date = Some 9\<rparr> [holding_of ''B'' 1 1 1 0]
     = ([holding_of ''B'' 1 1 1 0],
        [Get_current_price ''ACME'', Get_first_price_date ''ACME''], Dialog_invalid_date)"
proof -
  have t: "upper (strip '' acme'') = ''ACME''" "strip '' acme'' \<noteq> []"
    by (simp_all add: upper_def strip_def is_space_def)
  have p: "get_current_price usd_market ''ACME'' = Inr 14"
    by (simp add: get_current_price_def usd_market_def info_of_def py_or_def
        normalize_ccy_def strip_def is_space_def get_fx_rate_to_chf_def download_close_def
        dropna_def last_value_def to_float_def)
  have fd: "get_first_price_date usd_market ''ACME'' = Some 10"
    by (simp add: get_first_price_date_def usd_market_def info_of_def first_trade_epoch_def)
  have a: "fst (on_add_click usd_market 12
     \<lparr>ticker_field = ''acme'', shares_field = Some 0, price_field = Some 1,
      selected_purchase_date = Some 11\<rparr> [holding_of ''B'' 1 1 1 0]) = [holding_of ''B'' 1 1 1 0] \<and>
     fst (snd (on_add_click usd_market 12
     \<lparr>ticker_field = ''acme'', shares_field = Some 0, price_field = Some 1,
      selected_purchase_date = Some 11\<rparr> [holding_of ''B'' 1 1 1 0])) = []"
    using add_click_rejections
      [where f = "\<lparr>ticker_field = ''acme'', shares_field = Some 0, price_field = Some 1,
      selected_purchase_date = Some 11\<rparr>" and today = 12 and m = usd_market
        and assets = "[holding_of ''B'' 1 1 1 0]"]
    by (simp add: to_float_def)
  have r: "snd (snd (on_add_click usd_market 12
     \<lparr>ticker_field = ''acme'', shares_field = Some 0, price_field = Some 1,
      selected_purchase_date = Some 11\<rparr> [holding_of ''B'' 1 1 1 0])) = Fields_required"
    by (simp add: on_add_click_def validate_fields_def to_float_def)
  have b: "on_add_click usd_market 12
     \<lparr>ticker_field = '' acme'', shares_field = Some 2, price_field = Some 1,
      selected_purchase_date = Some 9\<rparr> [holding_of ''B'' 1 1 1 0]
     = ([holding_of ''B'' 1 1 1 0],
        [Get_current_price ''ACME'', Get_first_price_date ''ACME''], Dialog_invalid_date)"
    using add_click_rejections
      [where f = "\<lparr>ticker_field = '' acme'', shares_field = Some 2, price_field = Some 1,
      selected_purchase_date = Some 9\<rparr>" and today = 12 and m = usd_market
        and assets = "[holding_of ''B'' 1 1 1 0]" and pd = 9 and first_dt = 10 and cp = 14]
      t p fd
    by (simp add: validate_fields_def to_float_def)
  show ?thesis
    using a b r by (metis prod.collapse)
qed

end
